theory Spec2Isabelle
  imports Main "HOL-Library.Word" "HOL-Library.AList"
begin

unbundle bit_operations_syntax

section \<open>The collector of result.go: data model\<close>

text \<open>
  The development embeds the request orchestration of \<^verbatim>\<open>src/result.go\<close>
  (package colly): \<^verbatim>\<open>scrape\<close>, \<^verbatim>\<open>fetch\<close>, \<^verbatim>\<open>requestCheck\<close>,
  \<^verbatim>\<open>checkFilters\<close>, \<^verbatim>\<open>isDomainAllowed\<close>, \<^verbatim>\<open>checkRobots\<close>,
  \<^verbatim>\<open>checkRedirectFunc\<close>, \<^verbatim>\<open>handleOnError\<close>, the callback dispatchers,
  \<^verbatim>\<open>normalizeURL\<close> and \<^verbatim>\<open>requestHash\<close>.

  Go strings and byte slices are \<^typ>\<open>string\<close> (lists of 8-bit characters), so
  \<^verbatim>\<open>==\<close> on Go strings is HOL equality. A nil pointer, nil interface or nil function
  is \<^term>\<open>None\<close>. Mutation of the collector is explicit state passing: a function
  that mutates \<^verbatim>\<open>c\<close> returns the new collector.
\<close>

subsection \<open>URLs, headers, bodies\<close>

text \<open>
  A parsed \<^verbatim>\<open>*url.URL\<close> is used only through the accessors below; the record holds
  what each of them returns.
\<close>

record URL =
  URL_String :: string
  URL_Hostname :: string
  URL_Host :: string
  URL_Scheme :: string
  URL_Path :: string
  URL_EscapedPath :: string
  URL_RawQuery :: string
  URL_QueryEncode :: string

text \<open>
  The result of \<^verbatim>\<open>urlParser.Parse\<close> (the WHATWG parser) is used through
  \<^verbatim>\<open>Href(false)\<close> and \<^verbatim>\<open>String()\<close>.
\<close>

record whatwgUrl =
  Href :: string
  whatwg_String :: string

text \<open>
  \<^verbatim>\<open>http.Header\<close> is \<^verbatim>\<open>map[string][]string\<close>: an association list with one
  entry per key, in the order a \<^verbatim>\<open>range\<close> loop visits it.
\<close>

type_synonym Header = "(string \<times> string list) list"

text \<open>
  The \<^verbatim>\<open>io.Reader\<close> values that \<^verbatim>\<open>scrape\<close> and \<^verbatim>\<open>http.NewRequest\<close> tell
  apart by dynamic type: \<^verbatim>\<open>*bytes.Reader\<close> and \<^verbatim>\<open>*strings.Reader\<close> (contents and
  read offset; seekable, and reopenable through \<^verbatim>\<open>GetBody\<close>), \<^verbatim>\<open>*bytes.Buffer\<close>
  (the unread bytes; not seekable, reopenable), any other \<^verbatim>\<open>io.ReadSeeker\<close> (contents,
  offset and the error its \<^verbatim>\<open>Seek\<close> returns, if any; not reopenable) and any other
  reader (neither).
\<close>

datatype Reader =
    BytesReader string nat
  | BytesBuffer string
  | OtherSeeker string nat "string option"
  | OtherReader string

subsection \<open>Errors\<close>

text \<open>
  The package's error values (lines 121-135), \<^verbatim>\<open>AlreadyVisitedError\<close> (lines 92-98),
  \<^verbatim>\<open>http.ErrUseLastResponse\<close>, an error made by \<^verbatim>\<open>errors.New\<close> or returned by a
  library (\<open>ErrorsNew\<close>, with its message), \<^verbatim>\<open>fmt.Errorf\<close> with \<^verbatim>\<open>%w\<close>
  (\<open>Errorf\<close>, the formatted URL and the wrapped error), and a run-time panic.
\<close>

datatype error =
    ErrForbiddenDomain
  | ErrMissingURL
  | ErrMaxDepth
  | ErrForbiddenURL
  | ErrNoURLFiltersMatch
  | ErrRobotsTxtBlocked
  | ErrNoCookieJar
  | ErrNoPattern
  | ErrEmptyProxyURL
  | ErrAbortedAfterHeaders
  | ErrQueueFull
  | ErrMaxRequests
  | ErrRetryBodyUnseekable
  | AlreadyVisitedError URL
  | ErrUseLastResponse
  | ErrorsNew string
  | Errorf string error
  | Panic string

subsection \<open>Requests and responses\<close>

type_synonym Context = "(string \<times> string) list"

text \<open>
  \<^verbatim>\<open>*http.Request\<close>. \<open>req_GetBody\<close> is \<^term>\<open>None\<close> for a nil function; otherwise it
  holds what a call returns: an error message or the bytes of the fresh reader.
\<close>

record http_Request =
  req_Method :: string
  req_URL :: URL
  req_Header :: Header
  req_Host :: string
  req_Body :: "Reader option"
  req_GetBody :: "(string + string) option"

text \<open>
  The package's \<^verbatim>\<open>Request\<close>, as \<^verbatim>\<open>fetch\<close> builds it. \<open>R_Headers\<close> points to the
  header of the \<^verbatim>\<open>*http.Request\<close> (line 498), so the model keeps the two equal.
\<close>

record Request =
  R_URL :: URL
  R_Headers :: Header
  R_Host :: string
  R_Ctx :: Context
  R_Depth :: int
  R_Method :: string
  R_Body :: "Reader option"
  R_ID :: "32 word"
  R_ResponseCharacterEncoding :: string
  R_abort :: bool

text \<open>
  The package's \<^verbatim>\<open>Response\<close>. \<open>Rsp_Headers\<close> is the header map itself (a nil
  pointer reads as the empty map).
\<close>

record Response =
  StatusCode :: int
  Rsp_Body :: string
  Rsp_Ctx :: "Context option"
  Rsp_Request :: "Request option"
  Rsp_Headers :: Header

text \<open>
  The events a run leaves behind, in order: each call of a registered callback (with its
  index in its list, or its selector), each request handed to the transport, each fetch of
  a robots.txt, and each fetch handed to a new goroutine. The trace is what the theorems
  observe; the code does not read it.
\<close>

datatype event =
    EvRequest nat
  | EvResponseHeaders nat
  | EvResponse nat
  | EvHTML string
  | EvXML string
  | EvError nat error
  | EvScraped nat
  | EvTransport http_Request
  | EvRobotsGet string
  | EvGo string

subsection \<open>The collector\<close>

text \<open>
  \<^verbatim>\<open>*regexp.Regexp\<close> is used through \<^verbatim>\<open>Match\<close> only: a filter is its matching
  predicate. \<^verbatim>\<open>*robotstxt.RobotsData\<close> is used through \<^verbatim>\<open>FindGroup\<close>, and a group
  through \<^verbatim>\<open>Test\<close>.
\<close>

type_synonym Regexp = "string \<Rightarrow> bool"
type_synonym RobotsData = "string \<Rightarrow> (string \<Rightarrow> bool) option"

text \<open>
  The fields of \<^verbatim>\<open>Collector\<close> (lines 38-74) that the modelled functions read or write.
  \<open>MaxDepth\<close> and the depths are Go \<^verbatim>\<open>int\<close>s that are only compared, never computed
  with, so \<^typ>\<open>int\<close> loses nothing; the two counters are \<^verbatim>\<open>uint32\<close>.
  \<open>store\<close> is the state of the fingerprint store, the set of recorded hashes.

  A callback is user code; the model gives it the object it is called with and takes back
  that object as the callback left it.
\<close>

record Collector =
  UserAgent :: string
  Headers :: "Header option"
  MaxDepth :: int
  AllowedDomains :: "string list"
  DisallowedDomains :: "string list"
  DisallowedURLFilters :: "Regexp list"
  URLFilters :: "Regexp list"
  AllowURLRevisit :: bool
  MaxBodySize :: int
  CacheDir :: string
  IgnoreRobotsTxt :: bool
  Async :: bool
  ParseHTTPErrorResponse :: bool
  DetectCharset :: bool
  redirectHandler :: "(http_Request \<Rightarrow> http_Request list \<Rightarrow> error option \<times> http_Request) option"
  CheckHead :: bool
  MaxRequests :: "32 word"
  store :: "64 word set"
  robotsMap :: "string \<rightharpoonup> RobotsData"
  htmlCallbacks :: "(string \<times> (Response \<Rightarrow> Response)) list"
  xmlCallbacks :: "(string \<times> (Response \<Rightarrow> Response)) list"
  requestCallbacks :: "(Request \<Rightarrow> Request) list"
  responseCallbacks :: "(Response \<Rightarrow> Response) list"
  responseHeadersCallbacks :: "(Response \<Rightarrow> Response) list"
  errorCallbacks :: "(Response \<Rightarrow> error \<Rightarrow> Response) list"
  scrapedCallbacks :: "(Response \<Rightarrow> Response) list"
  requestCount :: "32 word"
  responseCount :: "32 word"
  wg :: int
  trace :: "event list"

text \<open>
  Modelled from the spec: the fingerprint store. \<^verbatim>\<open>Init\<close> installs
  \<^verbatim>\<open>storage.InMemoryStorage\<close> (line 341), whose code is not in the source file. The
  spec describes the store as a set-membership test, \<^verbatim>\<open>IsVisited(hash)\<close> and
  \<^verbatim>\<open>Visited(hash)\<close>, with the signatures \<^verbatim>\<open>IsVisited(uint64) (bool, error)\<close> and
  \<^verbatim>\<open>Visited(uint64) error\<close>; the two functions keep the error result in their types,
  and the in-memory set never returns one.
\<close>

definition store_IsVisited :: "64 word set \<Rightarrow> 64 word \<Rightarrow> string + bool" where
  "store_IsVisited s h = Inr (h \<in> s)"

definition store_Visited :: "64 word set \<Rightarrow> 64 word \<Rightarrow> string option \<times> 64 word set" where
  "store_Visited s h = (None, insert h s)"

section \<open>What the package takes from outside\<close>

text \<open>
  Code that \<^verbatim>\<open>result.go\<close> calls and that the source file does not contain is a field of
  the environment: the two URL parsers, \<^verbatim>\<open>textproto.CanonicalMIMEHeaderKey\<close>, the method
  check of \<^verbatim>\<open>http.NewRequest\<close>, \<^verbatim>\<open>http.StatusText\<close>, the string functions used on
  content types, the DOM parsers (a parsed document is the number of nodes each selector or
  query matches), the character-set normalisation \<^verbatim>\<open>fixCharset\<close>, and the transport.
  A library's error is its message.

  The transport is \<^verbatim>\<open>c.backend.Cache\<close> (line 536) and, for robots.txt,
  \<^verbatim>\<open>c.backend.Client.Get\<close> (line 653). Both run the client's \<^verbatim>\<open>CheckRedirect\<close>, which
  \<^verbatim>\<open>Init\<close> sets to \<^verbatim>\<open>c.checkRedirectFunc()\<close> (line 347): the model hands that
  function over as the first argument. \<open>backend_Cache\<close> also gets the headers hook of
  lines 528-535, and works on the collector and on the \<^verbatim>\<open>Request\<close> the hook mutates.
\<close>

type_synonym CheckRedirect =
  "http_Request \<Rightarrow> http_Request list \<Rightarrow> Collector \<Rightarrow> error option \<times> http_Request \<times> Collector"

type_synonym CheckHeaders =
  "http_Request \<Rightarrow> int \<Rightarrow> Header \<Rightarrow> Collector \<times> Request \<Rightarrow> bool \<times> Collector \<times> Request"

record env =
  urlParser_Parse :: "string \<Rightarrow> string + whatwgUrl"
  url_Parse :: "string \<Rightarrow> string + URL"
  CanonicalMIMEHeaderKey :: "string \<Rightarrow> string"
  validMethod :: "string \<Rightarrow> bool"
  http_StatusText :: "int \<Rightarrow> string"
  http_DetectContentType :: "string \<Rightarrow> string"
  strings_ToLower :: "string \<Rightarrow> string"
  strings_TrimSpace :: "string \<Rightarrow> string"
  goquery_NewDocumentFromReader :: "string \<Rightarrow> string + (string \<Rightarrow> nat)"
  htmlquery_Parse :: "string \<Rightarrow> string + (string \<Rightarrow> nat)"
  xmlquery_Parse :: "string \<Rightarrow> string + (string \<Rightarrow> nat)"
  fixCharset :: "bool \<Rightarrow> string \<Rightarrow> Response \<Rightarrow> string + Response"
  robotstxt_FromResponse :: "int \<times> string \<Rightarrow> string + RobotsData"
  Client_Get :: "CheckRedirect \<Rightarrow> string \<Rightarrow> Collector \<Rightarrow> (error + int \<times> string) \<times> Collector"
  backend_Cache :: "CheckRedirect \<Rightarrow> http_Request \<Rightarrow> int \<Rightarrow> CheckHeaders \<Rightarrow> string \<Rightarrow>
     Collector \<times> Request \<Rightarrow> (Response option \<times> error option) \<times> Collector \<times> Request"

subsection \<open>Header operations of net/http\<close>

text \<open>
  \<^verbatim>\<open>Get\<close>, \<^verbatim>\<open>Set\<close>, \<^verbatim>\<open>Add\<close> and \<^verbatim>\<open>Del\<close> canonicalise the key first; indexing
  the map (line 460) does not.
\<close>

definition Header_Get :: "env \<Rightarrow> Header \<Rightarrow> string \<Rightarrow> string" where
  "Header_Get env h key =
     (case map_of h (CanonicalMIMEHeaderKey env key) of
        None \<Rightarrow> []
      | Some [] \<Rightarrow> []
      | Some (v # vs) \<Rightarrow> v)"

definition Header_Set :: "env \<Rightarrow> Header \<Rightarrow> string \<Rightarrow> string \<Rightarrow> Header" where
  "Header_Set env h key v = AList.update (CanonicalMIMEHeaderKey env key) [v] h"

definition Header_Add :: "env \<Rightarrow> Header \<Rightarrow> string \<Rightarrow> string \<Rightarrow> Header" where
  "Header_Add env h key v =
     (let k = CanonicalMIMEHeaderKey env key
      in AList.update k ((case map_of h k of None \<Rightarrow> [] | Some vs \<Rightarrow> vs) @ [v]) h)"

definition Header_Del :: "env \<Rightarrow> Header \<Rightarrow> string \<Rightarrow> Header" where
  "Header_Del env h key = AList.delete (CanonicalMIMEHeaderKey env key) h"

subsection \<open>The fingerprint\<close>

text \<open>
  \<^verbatim>\<open>hash/fnv\<close>'s 64-bit FNV-1a: \<^verbatim>\<open>New64a\<close> starts from the offset basis, and
  \<^verbatim>\<open>Write\<close> does \<^verbatim>\<open>hash ^= c; hash *= prime64\<close> for each byte, on \<^verbatim>\<open>uint64\<close>.
\<close>

definition offset64 :: "64 word" where
  "offset64 = 14695981039346656037"

definition prime64 :: "64 word" where
  "prime64 = 1099511628211"

fun sum64a_Write :: "64 word \<Rightarrow> string \<Rightarrow> 64 word" where
  "sum64a_Write h [] = h"
| "sum64a_Write h (b # data) = sum64a_Write ((h XOR of_char b) * prime64) data"

definition fnv64a :: "string \<Rightarrow> 64 word" where
  "fnv64a data = sum64a_Write offset64 data"

text \<open>\<^verbatim>\<open>normalizeURL\<close> (lines 1289-1295): an unparsable string is returned as it is.\<close>

definition normalizeURL :: "env \<Rightarrow> string \<Rightarrow> string" where
  "normalizeURL env u =
     (case urlParser_Parse env u of
        Inl err \<Rightarrow> u
      | Inr parsed \<Rightarrow> whatwg_String parsed)"

text \<open>
  \<^verbatim>\<open>requestHash\<close> (lines 1297-1304). The body argument is the bytes \<^verbatim>\<open>io.Copy\<close> reads
  from the reader, \<^term>\<open>None\<close> for a nil reader.
\<close>

definition requestHash :: "env \<Rightarrow> string \<Rightarrow> string option \<Rightarrow> 64 word" where
  "requestHash env url body =
     (let h = sum64a_Write offset64 (normalizeURL env url)
      in case body of
           None \<Rightarrow> h
         | Some bytes \<Rightarrow> sum64a_Write h bytes)"

subsection \<open>Building the request\<close>

text \<open>
  The type assertion \<^verbatim>\<open>requestData.(io.ReadSeeker)\<close> and \<^verbatim>\<open>Seek(0, io.SeekStart)\<close>
  of lines 463-468: a nil reader and a reader that cannot seek are left alone.
\<close>

fun rewind :: "Reader option \<Rightarrow> string + Reader option" where
  "rewind None = Inr None"
| "rewind (Some (BytesReader s n)) = Inr (Some (BytesReader s 0))"
| "rewind (Some (BytesBuffer s)) = Inr (Some (BytesBuffer s))"
| "rewind (Some (OtherSeeker s n None)) = Inr (Some (OtherSeeker s 0 None))"
| "rewind (Some (OtherSeeker s n (Some err))) = Inl err"
| "rewind (Some (OtherReader s)) = Inr (Some (OtherReader s))"

text \<open>
  \<^verbatim>\<open>http.NewRequest\<close> of net/http: it refuses an invalid method and an unparsable URL,
  and sets \<^verbatim>\<open>GetBody\<close> for the three reader types it knows, to a function that returns
  a reader over the bytes that were unread when the request was made.
\<close>

fun NewRequest_GetBody :: "Reader option \<Rightarrow> (string + string) option" where
  "NewRequest_GetBody None = None"
| "NewRequest_GetBody (Some (BytesReader s n)) = Some (Inr (drop n s))"
| "NewRequest_GetBody (Some (BytesBuffer s)) = Some (Inr s)"
| "NewRequest_GetBody (Some (OtherSeeker s n e)) = None"
| "NewRequest_GetBody (Some (OtherReader s)) = None"

definition http_NewRequest :: "env \<Rightarrow> string \<Rightarrow> string \<Rightarrow> Reader option \<Rightarrow> error + http_Request" where
  "http_NewRequest env method url body =
     (let method1 = (if method = [] then ''GET'' else method)
      in if \<not> validMethod env method1 then Inl (ErrorsNew ''net/http: invalid method'')
         else case url_Parse env url of
                Inl err \<Rightarrow> Inl (ErrorsNew err)
              | Inr u \<Rightarrow>
                  Inr \<lparr>req_Method = method1, req_URL = u, req_Header = [], req_Host = URL_Host u,
                       req_Body = body, req_GetBody = NewRequest_GetBody body\<rparr>)"

text \<open>
  Lines 450-462 of \<^verbatim>\<open>scrape\<close>: the collector's default headers are copied only when the
  caller passed a nil header map; the User-Agent is set when the map has no entry under
  the key \<^verbatim>\<open>"User-Agent"\<close>.
\<close>

fun add_values :: "env \<Rightarrow> Header \<Rightarrow> string \<Rightarrow> string list \<Rightarrow> Header" where
  "add_values env hdr k [] = hdr"
| "add_values env hdr k (v # vs) = add_values env (Header_Add env hdr k v) k vs"

fun add_headers :: "env \<Rightarrow> Header \<Rightarrow> Header \<Rightarrow> Header" where
  "add_headers env hdr [] = hdr"
| "add_headers env hdr ((k, v) # rest) = add_headers env (add_values env hdr k v) rest"

definition scrape_headers :: "env \<Rightarrow> Collector \<Rightarrow> Header option \<Rightarrow> Header" where
  "scrape_headers env c hdr =
     (let hdr1 = (case hdr of
                    None \<Rightarrow> (case Headers c of
                                None \<Rightarrow> []
                              | Some defaults \<Rightarrow> add_headers env [] defaults)
                  | Some h \<Rightarrow> h)
      in if map_of hdr1 ''User-Agent'' = None
         then Header_Set env hdr1 ''User-Agent'' (UserAgent c)
         else hdr1)"

section \<open>The policy filter\<close>

text \<open>\<^verbatim>\<open>isMatchingFilter\<close> (lines 1280-1287): the first matching filter ends the loop.\<close>

fun isMatchingFilter :: "Regexp list \<Rightarrow> string \<Rightarrow> bool" where
  "isMatchingFilter [] d = False"
| "isMatchingFilter (r # fs) d = (if r d then True else isMatchingFilter fs d)"

text \<open>
  \<^verbatim>\<open>isDomainAllowed\<close> (lines 630-645), loop by loop. A nil and an empty
  \<^verbatim>\<open>AllowedDomains\<close> are both the empty list, as line 636 treats them alike.
\<close>

fun domain_in :: "string list \<Rightarrow> string \<Rightarrow> bool" where
  "domain_in [] domain = False"
| "domain_in (d2 # ds) domain = (if d2 = domain then True else domain_in ds domain)"

definition isDomainAllowed :: "Collector \<Rightarrow> string \<Rightarrow> bool" where
  "isDomainAllowed c domain =
     (if domain_in (DisallowedDomains c) domain then False
      else if length (AllowedDomains c) = 0 then True
      else if domain_in (AllowedDomains c) domain then True
      else False)"

text \<open>\<^verbatim>\<open>checkFilters\<close> (lines 613-628); \<^term>\<open>None\<close> is the nil error.\<close>

definition checkFilters :: "Collector \<Rightarrow> string \<Rightarrow> string \<Rightarrow> error option" where
  "checkFilters c URL domain =
     (if length (DisallowedURLFilters c) > 0 \<and> isMatchingFilter (DisallowedURLFilters c) URL
        then Some ErrForbiddenURL
      else if length (URLFilters c) > 0 \<and> \<not> isMatchingFilter (URLFilters c) URL
        then Some ErrNoURLFiltersMatch
      else if \<not> isDomainAllowed c domain then Some ErrForbiddenDomain
      else None)"

text \<open>
  The policy filter as section 4.2 of the spec words it, to be compared with the code:
  the three checks in the spec's order, with list membership for "appears in".
\<close>

definition spec_checkFilters :: "Collector \<Rightarrow> string \<Rightarrow> string \<Rightarrow> error option" where
  "spec_checkFilters c URL domain =
     (if \<exists>r \<in> set (DisallowedURLFilters c). r URL then Some ErrForbiddenURL
      else if URLFilters c \<noteq> [] \<and> \<not> (\<exists>r \<in> set (URLFilters c). r URL)
        then Some ErrNoURLFiltersMatch
      else if domain \<in> set (DisallowedDomains c) then Some ErrForbiddenDomain
      else if AllowedDomains c \<noteq> [] \<and> domain \<notin> set (AllowedDomains c)
        then Some ErrForbiddenDomain
      else None)"

section \<open>The redirect interceptor\<close>

text \<open>
  The function \<^verbatim>\<open>checkRedirectFunc\<close> returns (lines 1120-1166), in three parts: the
  filter check and \<^verbatim>\<open>via[0]\<close> (which panics on an empty chain), the revisit check of
  lines 1125-1149 (\<open>redirect_revisit\<close>, given \<^verbatim>\<open>via[0]\<close>), and lines 1151-1165
  (\<open>redirect_follow\<close>). It may change the request's header and the collector's store.
  A custom handler gets the request and the chain and may change the request.
\<close>

definition redirect_revisit :: "env \<Rightarrow> http_Request \<Rightarrow> http_Request \<Rightarrow> Collector \<Rightarrow> error option \<times> Collector" where
  "redirect_revisit env req via0 c =
     (let samePageRedirect =
            (normalizeURL env (URL_String (req_URL req)) =
             normalizeURL env (URL_String (req_URL via0)))
      in if \<not> AllowURLRevisit c \<and> \<not> samePageRedirect then
           (case (case req_GetBody req of
                    None \<Rightarrow> Inr None
                  | Some (Inl err) \<Rightarrow> Inl err
                  | Some (Inr bytes) \<Rightarrow> Inr (Some bytes)) of
              Inl err \<Rightarrow> (Some (ErrorsNew err), c)
            | Inr body \<Rightarrow>
                (let uHash = requestHash env (URL_String (req_URL req)) body
                 in case store_IsVisited (store c) uHash of
                      Inl err \<Rightarrow> (Some (ErrorsNew err), c)
                    | Inr visited \<Rightarrow>
                        if visited then (Some (AlreadyVisitedError (req_URL req)), c)
                        else (case store_Visited (store c) uHash of
                                (err, s) \<Rightarrow> (map_option ErrorsNew err, c\<lparr>store := s\<rparr>))))
         else (None, c))"

definition redirect_follow :: "env \<Rightarrow> http_Request \<Rightarrow> http_Request list \<Rightarrow> Collector \<Rightarrow>
    error option \<times> http_Request \<times> Collector" where
  "redirect_follow env req via c =
     (case redirectHandler c of
        Some handler \<Rightarrow> (case handler req via of (err, req1) \<Rightarrow> (err, req1, c))
      | None \<Rightarrow>
          if length via \<ge> 10 then (Some ErrUseLastResponse, req, c)
          else (let lastRequest = last via
                in if URL_Host (req_URL req) \<noteq> URL_Host (req_URL lastRequest)
                   then (None, req\<lparr>req_Header := Header_Del env (req_Header req) ''Authorization''\<rparr>, c)
                   else (None, req, c)))"

definition checkRedirectFunc :: "env \<Rightarrow> CheckRedirect" where
  "checkRedirectFunc env req via c =
     (case checkFilters c (URL_String (req_URL req)) (URL_Hostname (req_URL req)) of
        Some err \<Rightarrow> (Some (Errorf (URL_String (req_URL req)) err), req, c)
      | None \<Rightarrow>
         (case via of
            [] \<Rightarrow> (Some (Panic ''index out of range''), req, c)
          | via0 # rest \<Rightarrow>
             (case redirect_revisit env req via0 c of
                (Some err, c1) \<Rightarrow> (Some err, req, c1)
              | (None, c1) \<Rightarrow> redirect_follow env req via c1)))"

section \<open>Admission control\<close>

text \<open>
  \<^verbatim>\<open>checkRobots\<close> (lines 647-681). A miss in \<open>robotsMap\<close> fetches robots.txt through
  the client and stores the parsed rules under the host.
\<close>

definition robots_Test :: "Collector \<Rightarrow> RobotsData \<Rightarrow> URL \<Rightarrow> error option" where
  "robots_Test c robot u =
     (case robot (UserAgent c) of
        None \<Rightarrow> None
      | Some uaGroup \<Rightarrow>
          (let eu = URL_EscapedPath u @
                    (if URL_RawQuery u \<noteq> [] then ''?'' @ URL_QueryEncode u else [])
           in if \<not> uaGroup eu then Some ErrRobotsTxtBlocked else None))"

definition checkRobots :: "env \<Rightarrow> Collector \<Rightarrow> URL \<Rightarrow> error option \<times> Collector" where
  "checkRobots env c u =
     (case robotsMap c (URL_Host u) of
        Some robot \<Rightarrow> (robots_Test c robot u, c)
      | None \<Rightarrow>
          (let target = URL_Scheme u @ ''://'' @ URL_Host u @ ''/robots.txt'';
               c1 = c\<lparr>trace := trace c @ [EvRobotsGet target]\<rparr>
           in case Client_Get env (checkRedirectFunc env) target c1 of
                (Inl err, c2) \<Rightarrow> (Some err, c2)
              | (Inr resp, c2) \<Rightarrow>
                  (case robotstxt_FromResponse env resp of
                     Inl err \<Rightarrow> (Some (ErrorsNew err), c2)
                   | Inr robot \<Rightarrow>
                       (let c3 = c2\<lparr>robotsMap := (robotsMap c2)(URL_Host u \<mapsto> robot)\<rparr>
                        in (robots_Test c3 robot u, c3)))))"

text \<open>
  \<^verbatim>\<open>requestCheck\<close> (lines 570-611). \<open>getBody\<close> is \<^verbatim>\<open>req.GetBody\<close>. The comparisons
  of line 575 are on \<^verbatim>\<open>uint32\<close>, unsigned as on \<^typ>\<open>32 word\<close>.
\<close>

definition requestCheck ::
  "env \<Rightarrow> Collector \<Rightarrow> URL \<Rightarrow> string \<Rightarrow> (string + string) option \<Rightarrow> int \<Rightarrow> bool \<Rightarrow>
   error option \<times> Collector" where
  "requestCheck env c parsedURL method getBody depth checkRevisit =
     (let u = URL_String parsedURL
      in if MaxDepth c > 0 \<and> MaxDepth c < depth then (Some ErrMaxDepth, c)
         else if MaxRequests c > 0 \<and> requestCount c \<ge> MaxRequests c then (Some ErrMaxRequests, c)
         else case checkFilters c u (URL_Hostname parsedURL) of
           Some err \<Rightarrow> (Some err, c)
         | None \<Rightarrow>
            (case (if method \<noteq> ''HEAD'' \<and> \<not> IgnoreRobotsTxt c
                   then checkRobots env c parsedURL else (None, c)) of
               (Some err, c1) \<Rightarrow> (Some err, c1)
             | (None, c1) \<Rightarrow>
                 if checkRevisit \<and> \<not> AllowURLRevisit c1 then
                   if method \<noteq> ''GET'' \<and> getBody = None then (None, c1)
                   else
                     (case (case getBody of
                              None \<Rightarrow> Inr None
                            | Some (Inl err) \<Rightarrow> Inl err
                            | Some (Inr bytes) \<Rightarrow> Inr (Some bytes)) of
                        Inl err \<Rightarrow> (Some (ErrorsNew err), c1)
                      | Inr body \<Rightarrow>
                          (let uHash = requestHash env u body
                           in case store_IsVisited (store c1) uHash of
                                Inl err \<Rightarrow> (Some (ErrorsNew err), c1)
                              | Inr visited \<Rightarrow>
                                  if visited then (Some (AlreadyVisitedError parsedURL), c1)
                                  else (case store_Visited (store c1) uHash of
                                          (err, s) \<Rightarrow> (map_option ErrorsNew err, c1\<lparr>store := s\<rparr>))))
                 else (None, c1)))"

section \<open>The response dispatcher\<close>

text \<open>
  The dispatchers of lines 857-890 and 1035-1044 call the registered callbacks in
  registration order. Each call is recorded in the trace with the callback's index. The
  debugger events (\<^verbatim>\<open>c.debugger\<close>) are not modelled.
\<close>

fun call_each :: "(nat \<Rightarrow> event) \<Rightarrow> nat \<Rightarrow> ('a \<Rightarrow> 'a) list \<Rightarrow> Collector \<times> 'a \<Rightarrow> Collector \<times> 'a" where
  "call_each ev i [] (c, r) = (c, r)"
| "call_each ev i (f # fs) (c, r) = call_each ev (Suc i) fs (c\<lparr>trace := trace c @ [ev i]\<rparr>, f r)"

definition handleOnRequest :: "Collector \<Rightarrow> Request \<Rightarrow> Collector \<times> Request" where
  "handleOnRequest c r = call_each EvRequest 0 (requestCallbacks c) (c, r)"

definition handleOnResponse :: "Collector \<Rightarrow> Response \<Rightarrow> Collector \<times> Response" where
  "handleOnResponse c r = call_each EvResponse 0 (responseCallbacks c) (c, r)"

definition handleOnResponseHeaders :: "Collector \<Rightarrow> Response \<Rightarrow> Collector \<times> Response" where
  "handleOnResponseHeaders c r = call_each EvResponseHeaders 0 (responseHeadersCallbacks c) (c, r)"

definition handleOnScraped :: "Collector \<Rightarrow> Response \<Rightarrow> Collector \<times> Response" where
  "handleOnScraped c r = call_each EvScraped 0 (scrapedCallbacks c) (c, r)"

text \<open>
  \<^verbatim>\<open>handleOnError\<close> (lines 1004-1033); \<open>error_callbacks\<close> is its second half, lines
  1011-1032, with the error settled. With a nil error and a nil response, line 1005
  returns nil when \<^verbatim>\<open>ParseHTTPErrorResponse\<close> is set and dereferences nil otherwise.
  The result carries the response as the function leaves it.
\<close>

definition error_callbacks :: "Collector \<Rightarrow> Response option \<Rightarrow> error \<Rightarrow> Request \<Rightarrow> Context \<Rightarrow>
    Collector \<times> Response" where
  "error_callbacks c response err request ctx =
     (let response1 = (case response of
                         None \<Rightarrow> \<lparr>StatusCode = 0, Rsp_Body = [], Rsp_Ctx = Some ctx,
                                   Rsp_Request = Some request, Rsp_Headers = []\<rparr>
                       | Some r \<Rightarrow> r);
          response2 = (if Rsp_Request response1 = None
                       then response1\<lparr>Rsp_Request := Some request\<rparr> else response1);
          response3 = (if Rsp_Ctx response2 = None
                       then response2\<lparr>Rsp_Ctx := Some (R_Ctx request)\<rparr> else response2)
      in call_each (\<lambda>i. EvError i err) 0 (map (\<lambda>f r. f r err) (errorCallbacks c)) (c, response3))"

definition handleOnError ::
  "env \<Rightarrow> Collector \<Rightarrow> Response option \<Rightarrow> error option \<Rightarrow> Request \<Rightarrow> Context \<Rightarrow>
   error option \<times> Collector \<times> Response option" where
  "handleOnError env c response err request ctx =
     (case err of
        Some e \<Rightarrow>
          (case error_callbacks c response e request ctx of
             (c1, response1) \<Rightarrow> (Some e, c1, Some response1))
      | None \<Rightarrow>
          if ParseHTTPErrorResponse c then (None, c, response)
          else
            (case response of
               None \<Rightarrow> (Some (Panic ''nil pointer dereference''), c, None)
             | Some r \<Rightarrow>
                 if StatusCode r < 203 then (None, c, response)
                 else
                   (let e = ErrorsNew (http_StatusText env (StatusCode r))
                    in case error_callbacks c response e request ctx of
                         (c1, response1) \<Rightarrow> (Some e, c1, Some response1))))"

text \<open>
  \<^verbatim>\<open>handleOnHTML\<close> (lines 892-941) and \<^verbatim>\<open>handleOnXML\<close> (lines 943-1002). The parsed
  document gives, for each selector or query, the number of nodes it matches; the callback
  runs once per node. Setting \<^verbatim>\<open>Request.baseURL\<close> is left out.
\<close>

fun call_times :: "event \<Rightarrow> nat \<Rightarrow> ('a \<Rightarrow> 'a) \<Rightarrow> Collector \<times> 'a \<Rightarrow> Collector \<times> 'a" where
  "call_times ev 0 f (c, r) = (c, r)"
| "call_times ev (Suc n) f (c, r) = call_times ev n f (c\<lparr>trace := trace c @ [ev]\<rparr>, f r)"

fun call_matches :: "(string \<Rightarrow> event) \<Rightarrow> (string \<Rightarrow> nat) \<Rightarrow> (string \<times> ('a \<Rightarrow> 'a)) list \<Rightarrow>
    Collector \<times> 'a \<Rightarrow> Collector \<times> 'a" where
  "call_matches ev doc [] (c, r) = (c, r)"
| "call_matches ev doc ((sel, f) # ccs) (c, r) =
     call_matches ev doc ccs (call_times (ev sel) (doc sel) f (c, r))"

definition handleOnHTML :: "env \<Rightarrow> Collector \<Rightarrow> Response \<Rightarrow> error option \<times> Collector \<times> Response" where
  "handleOnHTML env c resp =
     (if length (htmlCallbacks c) = 0 then (None, c, resp)
      else
        (let contentType0 = Header_Get env (Rsp_Headers resp) ''Content-Type'';
             contentType = (if contentType0 = [] then http_DetectContentType env (Rsp_Body resp)
                            else contentType0);
             mediatype = strings_TrimSpace env
                           (strings_ToLower env (takeWhile (\<lambda>ch. ch \<noteq> CHR '';'') contentType))
         in if mediatype \<noteq> ''text/html'' \<and> mediatype \<noteq> ''application/xhtml+xml''
            then (None, c, resp)
            else case goquery_NewDocumentFromReader env (Rsp_Body resp) of
                   Inl err \<Rightarrow> (Some (ErrorsNew err), c, resp)
                 | Inr doc \<Rightarrow>
                     (case call_matches EvHTML doc (htmlCallbacks c) (c, resp) of
                        (c1, resp1) \<Rightarrow> (None, c1, resp1))))"

fun strings_HasSuffix :: "string \<Rightarrow> string \<Rightarrow> bool" where
  "strings_HasSuffix s suffix =
     (length s \<ge> length suffix \<and> drop (length s - length suffix) s = suffix)"

fun strings_Contains :: "string \<Rightarrow> string \<Rightarrow> bool" where
  "strings_Contains s substr = list_ex (\<lambda>i. take (length substr) (drop i s) = substr) [0..<Suc (length s)]"

definition handleOnXML :: "env \<Rightarrow> Collector \<Rightarrow> Response \<Rightarrow> error option \<times> Collector \<times> Response" where
  "handleOnXML env c resp =
     (if length (xmlCallbacks c) = 0 then (None, c, resp)
      else case Rsp_Request resp of
        None \<Rightarrow> (Some (Panic ''nil pointer dereference''), c, resp)
      | Some request \<Rightarrow>
        (let contentType = strings_ToLower env (Header_Get env (Rsp_Headers resp) ''Content-Type'');
             path = strings_ToLower env (URL_Path (R_URL request));
             isXMLFile = (strings_HasSuffix path ''.xml'' \<or> strings_HasSuffix path ''.xml.gz'')
         in if \<not> strings_Contains contentType ''html'' \<and>
               (\<not> strings_Contains contentType ''xml'' \<and> \<not> isXMLFile)
            then (None, c, resp)
            else if strings_Contains contentType ''html'' then
              (case htmlquery_Parse env (Rsp_Body resp) of
                 Inl err \<Rightarrow> (Some (ErrorsNew err), c, resp)
               | Inr doc \<Rightarrow>
                   (case call_matches EvXML doc (xmlCallbacks c) (c, resp) of
                      (c1, resp1) \<Rightarrow> (None, c1, resp1)))
            else if strings_Contains contentType ''xml'' \<or> isXMLFile then
              (case xmlquery_Parse env (Rsp_Body resp) of
                 Inl err \<Rightarrow> (Some (ErrorsNew err), c, resp)
               | Inr doc \<Rightarrow>
                   (case call_matches EvXML doc (xmlCallbacks c) (c, resp) of
                      (c1, resp1) \<Rightarrow> (None, c1, resp1)))
            else (None, c, resp)))"

section \<open>The orchestrator\<close>

text \<open>
  The closure \<^verbatim>\<open>checkHeadersFunc\<close> of lines 528-535. Line 529 compares two pointers;
  the model compares the URLs they point to. The callbacks get a response that points to
  the request, so what they do to it (\<^verbatim>\<open>Abort\<close>) is read back from the response.
\<close>

definition checkHeadersFunc :: "Context \<Rightarrow> URL \<Rightarrow> CheckHeaders" where
  "checkHeadersFunc ctx origURL req statusCode headers st =
     (case st of (c, request) \<Rightarrow>
        (let request1 = (if req_URL req \<noteq> origURL
                         then request\<lparr>R_URL := req_URL req, R_Headers := req_Header req\<rparr>
                         else request)
         in case handleOnResponseHeaders c
                   \<lparr>StatusCode = statusCode, Rsp_Body = [], Rsp_Ctx = Some ctx,
                    Rsp_Request = Some request1, Rsp_Headers = headers\<rparr> of
              (c1, resp) \<Rightarrow>
                (let request2 = (case Rsp_Request resp of None \<Rightarrow> request1 | Some r \<Rightarrow> r)
                 in (\<not> R_abort request2, c1, request2))))"

text \<open>
  \<^verbatim>\<open>fetch\<close> (lines 491-568), cut at its calls. \<open>fetch_request\<close> is lines 496-510, the
  \<^verbatim>\<open>Request\<close> with its default Accept header. \<open>fetch_html\<close> is lines 555-558 and
  \<open>fetch_xml\<close> lines 560-563 (an extraction and, on its error, \<^verbatim>\<open>handleOnError\<close>,
  whose result is dropped); \<open>fetch_response\<close> is lines 543-567, \<open>fetch_outcome\<close> lines
  540-567, \<open>fetch_content_type\<close> lines 518-520 and \<open>fetch_send\<close> lines 518-567. \<^verbatim>\<open>defer c.wg.Done()\<close> is the decrement
  of \<open>wg\<close> on every way out. The request handed to the transport is recorded in the
  trace. \<^verbatim>\<open>TraceHTTP\<close> and the proxy URL are left out.
\<close>

definition wg_Done :: "Collector \<Rightarrow> Collector" where
  "wg_Done c = c\<lparr>wg := wg c - 1\<rparr>"

definition fetch_html :: "env \<Rightarrow> Collector \<Rightarrow> Response \<Rightarrow> Request \<Rightarrow> Context \<Rightarrow>
    error option \<times> Collector \<times> Response" where
  "fetch_html env c response request ctx =
     (case handleOnHTML env c response of
        (None, c1, response1) \<Rightarrow> (None, c1, response1)
      | (Some err, c1, response1) \<Rightarrow>
          (case handleOnError env c1 (Some response1) (Some err) request ctx of
             (ignored, c2, None) \<Rightarrow> (Some err, c2, response1)
           | (ignored, c2, Some response2) \<Rightarrow> (Some err, c2, response2)))"

definition fetch_xml :: "env \<Rightarrow> Collector \<Rightarrow> Response \<Rightarrow> Request \<Rightarrow> Context \<Rightarrow>
    error option \<times> Collector \<times> Response" where
  "fetch_xml env c response request ctx =
     (case handleOnXML env c response of
        (None, c1, response1) \<Rightarrow> (None, c1, response1)
      | (Some err, c1, response1) \<Rightarrow>
          (case handleOnError env c1 (Some response1) (Some err) request ctx of
             (ignored, c2, None) \<Rightarrow> (Some err, c2, response1)
           | (ignored, c2, Some response2) \<Rightarrow> (Some err, c2, response2)))"

definition fetch_response :: "env \<Rightarrow> Collector \<Rightarrow> Response \<Rightarrow> Request \<Rightarrow> Context \<Rightarrow>
    error option \<times> Collector" where
  "fetch_response env c response request ctx =
     (let c1 = c\<lparr>responseCount := responseCount c + 1\<rparr>;
          response1 = response\<lparr>Rsp_Ctx := Some ctx, Rsp_Request := Some request\<rparr>
      in case fixCharset env (DetectCharset c1) (R_ResponseCharacterEncoding request) response1 of
           Inl err \<Rightarrow> (Some (ErrorsNew err), c1)
         | Inr response2 \<Rightarrow>
             (case handleOnResponse c1 response2 of
                (c2, response3) \<Rightarrow>
             (case fetch_html env c2 response3 request ctx of
                (errH, c3, response4) \<Rightarrow>
             (case fetch_xml env c3 response4 request ctx of
                (errX, c4, response5) \<Rightarrow>
             (case handleOnScraped c4 response5 of
                (c5, response6) \<Rightarrow> (errX, c5))))))"

definition fetch_outcome :: "env \<Rightarrow> Collector \<Rightarrow> Response option \<Rightarrow> error option \<Rightarrow> Request \<Rightarrow> Context \<Rightarrow>
    error option \<times> Collector" where
  "fetch_outcome env c response err request ctx =
     (case handleOnError env c response err request ctx of
        (Some e, c1, response1) \<Rightarrow> (Some e, c1)
      | (None, c1, None) \<Rightarrow> (Some (Panic ''nil pointer dereference''), c1)
      | (None, c1, Some response1) \<Rightarrow> fetch_response env c1 response1 request ctx)"

definition fetch_content_type :: "env \<Rightarrow> Request \<Rightarrow> string \<Rightarrow> Request" where
  "fetch_content_type env request method =
     (if method = ''POST'' \<and> Header_Get env (R_Headers request) ''Content-Type'' = []
      then request\<lparr>R_Headers := Header_Add env (R_Headers request) ''Content-Type''
                                    ''application/x-www-form-urlencoded''\<rparr>
      else request)"

definition fetch_send :: "env \<Rightarrow> Collector \<Rightarrow> Request \<Rightarrow> string \<Rightarrow> http_Request \<Rightarrow> Context \<Rightarrow>
    error option \<times> Collector" where
  "fetch_send env c request method req ctx =
     (let request1 = fetch_content_type env request method;
          req1 = req\<lparr>req_Header := R_Headers request1\<rparr>;
          origURL = req_URL req1;
          c1 = c\<lparr>trace := trace c @ [EvTransport req1]\<rparr>
      in case backend_Cache env (checkRedirectFunc env) req1 (MaxBodySize c1)
                (checkHeadersFunc ctx origURL) (CacheDir c1) (c1, request1) of
           ((response, err), c2, request2) \<Rightarrow> fetch_outcome env c2 response err request2 ctx)"

definition fetch_request :: "env \<Rightarrow> Collector \<Rightarrow> string \<Rightarrow> int \<Rightarrow> Reader option \<Rightarrow> Context \<Rightarrow>
    http_Request \<Rightarrow> Request" where
  "fetch_request env c method depth requestData ctx req =
     (let request = \<lparr>R_URL = req_URL req, R_Headers = req_Header req, R_Host = req_Host req,
                     R_Ctx = ctx, R_Depth = depth, R_Method = method, R_Body = requestData,
                     R_ID = requestCount c, R_ResponseCharacterEncoding = [], R_abort = False\<rparr>
      in if Header_Get env (R_Headers request) ''Accept'' = []
         then request\<lparr>R_Headers := Header_Set env (R_Headers request) ''Accept'' ''*/*''\<rparr>
         else request)"

definition fetch ::
  "env \<Rightarrow> Collector \<Rightarrow> string \<Rightarrow> string \<Rightarrow> int \<Rightarrow> Reader option \<Rightarrow> Context option \<Rightarrow> Header \<Rightarrow>
   http_Request \<Rightarrow> error option \<times> Collector" where
  "fetch env c u method depth requestData ctx0 hdr req =
     (let ctx = (case ctx0 of None \<Rightarrow> [] | Some x \<Rightarrow> x);
          c1 = c\<lparr>requestCount := requestCount c + 1\<rparr>;
          request = fetch_request env c1 method depth requestData ctx req
      in case handleOnRequest c1 request of
           (c2, request1) \<Rightarrow>
             (case (if R_abort request1 then (None, c2)
                    else fetch_send env c2 request1 method req ctx) of
                (err, c3) \<Rightarrow> (err, wg_Done c3)))"

text \<open>
  Lines 442-478 of \<^verbatim>\<open>scrape\<close>: parse the URL twice, settle the headers, rewind the
  body, build the \<^verbatim>\<open>*http.Request\<close>. The result is the parsed URL, the body as it is
  after the rewind, and the request.
\<close>

definition scrape_request ::
  "env \<Rightarrow> Collector \<Rightarrow> string \<Rightarrow> string \<Rightarrow> Reader option \<Rightarrow> Header option \<Rightarrow>
   error + URL \<times> Reader option \<times> http_Request" where
  "scrape_request env c u method requestData hdr =
     (case urlParser_Parse env u of
        Inl err \<Rightarrow> Inl (ErrorsNew err)
      | Inr parsedWhatwgURL \<Rightarrow>
     (case url_Parse env (Href parsedWhatwgURL) of
        Inl err \<Rightarrow> Inl (ErrorsNew err)
      | Inr parsedURL \<Rightarrow>
     (let hdr1 = scrape_headers env c hdr
      in case rewind requestData of
        Inl err \<Rightarrow> Inl (ErrorsNew err)
      | Inr requestData1 \<Rightarrow>
     (case http_NewRequest env method (URL_String parsedURL) requestData1 of
        Inl err \<Rightarrow> Inl err
      | Inr req \<Rightarrow>
          (let hostHeader = Header_Get env hdr1 ''Host''
           in Inr (parsedURL, requestData1,
                   req\<lparr>req_Header := hdr1,
                       req_Host := (if hostHeader \<noteq> [] then hostHeader else req_Host req)\<rparr>))))))"

text \<open>
  \<^verbatim>\<open>scrape\<close> (lines 441-489). With \<^verbatim>\<open>Async\<close> the fetch is handed to a new goroutine:
  the model records the hand-over in the trace and returns nil, as line 486 does, without
  running the fetch.
\<close>

definition scrape ::
  "env \<Rightarrow> Collector \<Rightarrow> string \<Rightarrow> string \<Rightarrow> int \<Rightarrow> Reader option \<Rightarrow> Context option \<Rightarrow>
   Header option \<Rightarrow> bool \<Rightarrow> error option \<times> Collector" where
  "scrape env c u method depth requestData ctx hdr checkRevisit =
     (case scrape_request env c u method requestData hdr of
        Inl err \<Rightarrow> (Some err, c)
      | Inr (parsedURL, requestData1, req) \<Rightarrow>
          (case requestCheck env c parsedURL method (req_GetBody req) depth checkRevisit of
             (Some err, c1) \<Rightarrow> (Some err, c1)
           | (None, c1) \<Rightarrow>
               (let u1 = URL_String parsedURL;
                    c2 = c1\<lparr>wg := wg c1 + 1\<rparr>
                in if Async c2 then (None, c2\<lparr>trace := trace c2 @ [EvGo u1]\<rparr>)
                   else fetch env c2 u1 method depth requestData1 ctx (req_Header req) req)))"

text \<open>The entry points of lines 366-405 that the claims use.\<close>

definition Visit :: "env \<Rightarrow> Collector \<Rightarrow> string \<Rightarrow> error option \<times> Collector" where
  "Visit env c URL =
     (if CheckHead c then
        (case scrape env c URL ''HEAD'' 1 None None None True of
           (Some check, c1) \<Rightarrow> (Some check, c1)
         | (None, c1) \<Rightarrow> scrape env c1 URL ''GET'' 1 None None None True)
      else scrape env c URL ''GET'' 1 None None None True)"

definition Head :: "env \<Rightarrow> Collector \<Rightarrow> string \<Rightarrow> error option \<times> Collector" where
  "Head env c URL = scrape env c URL ''HEAD'' 1 None None None False"

definition PostRaw :: "env \<Rightarrow> Collector \<Rightarrow> string \<Rightarrow> string \<Rightarrow> error option \<times> Collector" where
  "PostRaw env c URL requestData =
     scrape env c URL ''POST'' 1 (Some (BytesReader requestData 0)) None None True"

definition Collector_Request :: "env \<Rightarrow> Collector \<Rightarrow> string \<Rightarrow> string \<Rightarrow> Reader option \<Rightarrow>
    Context option \<Rightarrow> Header option \<Rightarrow> error option \<times> Collector" where
  "Collector_Request env c method URL requestData ctx hdr =
     scrape env c URL method 1 requestData ctx hdr True"

section \<open>Admission control as the spec words it\<close>

text \<open>
  Section 4.3 of the spec: "sequenced checks, first failure wins", over the five checks it
  lists. Each check takes the collector and gives an error or nil, and the collector as it
  leaves it. The fingerprint is section 3's: the 64-bit hash of the normalized URL string
  concatenated with the body's bytes. These definitions follow the spec; the theorem on
  \<open>requestCheck\<close> compares the code with them.
\<close>

type_synonym check = "Collector \<Rightarrow> error option \<times> Collector"

fun first_failure :: "check list \<Rightarrow> check" where
  "first_failure [] c = (None, c)"
| "first_failure (chk # chks) c =
     (case chk c of
        (Some err, c1) \<Rightarrow> (Some err, c1)
      | (None, c1) \<Rightarrow> first_failure chks c1)"

definition spec_depth_check :: "int \<Rightarrow> check" where
  "spec_depth_check depth c =
     (if 0 < MaxDepth c \<and> depth > MaxDepth c then (Some ErrMaxDepth, c) else (None, c))"

definition spec_budget_check :: check where
  "spec_budget_check c =
     (if 0 < MaxRequests c \<and> requestCount c \<ge> MaxRequests c then (Some ErrMaxRequests, c)
      else (None, c))"

definition spec_filter_check :: "URL \<Rightarrow> check" where
  "spec_filter_check parsedURL c = (checkFilters c (URL_String parsedURL) (URL_Hostname parsedURL), c)"

definition spec_robots_check :: "env \<Rightarrow> string \<Rightarrow> URL \<Rightarrow> check" where
  "spec_robots_check env method parsedURL c =
     (if method = ''HEAD'' \<or> IgnoreRobotsTxt c then (None, c) else checkRobots env c parsedURL)"

fun body_bytes :: "(string + string) option \<Rightarrow> string" where
  "body_bytes None = []"
| "body_bytes (Some (Inl err)) = []"
| "body_bytes (Some (Inr bytes)) = bytes"

definition spec_fingerprint :: "env \<Rightarrow> string \<Rightarrow> (string + string) option \<Rightarrow> 64 word" where
  "spec_fingerprint env u getBody = fnv64a (normalizeURL env u @ body_bytes getBody)"

definition spec_revisit_check :: "env \<Rightarrow> string \<Rightarrow> (string + string) option \<Rightarrow> URL \<Rightarrow> bool \<Rightarrow> check" where
  "spec_revisit_check env method getBody parsedURL checkRevisit c =
     (if AllowURLRevisit c \<or> \<not> checkRevisit then (None, c)
      else if method \<noteq> ''GET'' \<and> getBody = None then (None, c)
      else case getBody of
             Some (Inl err) \<Rightarrow> (Some (ErrorsNew err), c)
           | reopened \<Rightarrow>
               (let fingerprint = spec_fingerprint env (URL_String parsedURL) getBody
                in if fingerprint \<in> store c then (Some (AlreadyVisitedError parsedURL), c)
                   else (None, c\<lparr>store := insert fingerprint (store c)\<rparr>)))"

definition spec_requestCheck ::
  "env \<Rightarrow> Collector \<Rightarrow> URL \<Rightarrow> string \<Rightarrow> (string + string) option \<Rightarrow> int \<Rightarrow> bool \<Rightarrow>
   error option \<times> Collector" where
  "spec_requestCheck env c parsedURL method getBody depth checkRevisit =
     first_failure
       [spec_depth_check depth,
        spec_budget_check,
        spec_filter_check parsedURL,
        spec_robots_check env method parsedURL,
        spec_revisit_check env method getBody parsedURL checkRevisit] c"

section \<open>A collector and an environment to run the model on\<close>

text \<open>
  \<^verbatim>\<open>NewCollector()\<close> without options (lines 194-205): the zero value of every field,
  then what \<^verbatim>\<open>Init\<close> sets (lines 336-355).
\<close>

definition NewCollector :: Collector where
  "NewCollector =
     \<lparr>UserAgent = ''colly - https://github.com/gocolly/colly/v2'', Headers = None, MaxDepth = 0,
      AllowedDomains = [], DisallowedDomains = [], DisallowedURLFilters = [], URLFilters = [],
      AllowURLRevisit = False, MaxBodySize = 10 * 1024 * 1024, CacheDir = [],
      IgnoreRobotsTxt = True, Async = False, ParseHTTPErrorResponse = False,
      DetectCharset = False, redirectHandler = None, CheckHead = False, MaxRequests = 0,
      store = {}, robotsMap = Map.empty, htmlCallbacks = [], xmlCallbacks = [],
      requestCallbacks = [], responseCallbacks = [], responseHeadersCallbacks = [],
      errorCallbacks = [], scrapedCallbacks = [], requestCount = 0, responseCount = 0,
      wg = 0, trace = []\<rparr>"

text \<open>
  The environment of the examples. Its URLs have the shape \<^verbatim>\<open>http://host/path\<close>, for
  which the accessors of \<^verbatim>\<open>net/url\<close> are plain cuts of the string, and the WHATWG
  parser adds the missing root path. Header keys in the examples are in canonical form
  already, so canonicalisation leaves them as they are. The transport answers every
  request with an empty 200 response and follows no redirect.
\<close>

definition plain_URL :: "string \<Rightarrow> URL" where
  "plain_URL s =
     (let rest = drop 7 s;
          host = takeWhile (\<lambda>ch. ch \<noteq> CHR ''/'') rest;
          path = dropWhile (\<lambda>ch. ch \<noteq> CHR ''/'') rest
      in \<lparr>URL_String = s, URL_Hostname = host, URL_Host = host, URL_Scheme = ''http'',
          URL_Path = path, URL_EscapedPath = path, URL_RawQuery = [], URL_QueryEncode = []\<rparr>)"

definition add_root :: "string \<Rightarrow> string" where
  "add_root s = (if dropWhile (\<lambda>ch. ch \<noteq> CHR ''/'') (drop 7 s) = [] then s @ ''/'' else s)"

definition ok_response :: Response where
  "ok_response = \<lparr>StatusCode = 200, Rsp_Body = [], Rsp_Ctx = None, Rsp_Request = None,
                   Rsp_Headers = []\<rparr>"

definition sample_env :: env where
  "sample_env =
     \<lparr>urlParser_Parse = (\<lambda>u. Inr \<lparr>Href = add_root u, whatwg_String = add_root u\<rparr>),
      url_Parse = (\<lambda>s. Inr (plain_URL s)),
      CanonicalMIMEHeaderKey = (\<lambda>k. k),
      validMethod = (\<lambda>m. m \<in> set [''GET'', ''HEAD'', ''POST'']),
      http_StatusText = (\<lambda>code. ''status''),
      http_DetectContentType = (\<lambda>body. ''text/plain; charset=utf-8''),
      strings_ToLower = (\<lambda>s. s),
      strings_TrimSpace = (\<lambda>s. s),
      goquery_NewDocumentFromReader = (\<lambda>body. Inr (\<lambda>sel. 0)),
      htmlquery_Parse = (\<lambda>body. Inr (\<lambda>sel. 0)),
      xmlquery_Parse = (\<lambda>body. Inr (\<lambda>sel. 0)),
      fixCharset = (\<lambda>detect enc r. Inr r),
      robotstxt_FromResponse = (\<lambda>resp. Inr (\<lambda>agent. None)),
      Client_Get = (\<lambda>redirect target c. (Inr (200, []), c)),
      backend_Cache = (\<lambda>redirect req size hook dir st. ((Some ok_response, None), st))\<rparr>"

text \<open>
  A collector with every list of the policy filter set: one allowed domain, one disallowed
  domain, and filters that match one URL each.
\<close>

definition policy_collector :: Collector where
  "policy_collector =
     NewCollector\<lparr>AllowedDomains := [''a.com''], DisallowedDomains := [''c.com''],
                  DisallowedURLFilters := [\<lambda>u. u = ''http://c.com/x''],
                  URLFilters := [\<lambda>u. u \<noteq> ''http://a.com/private'']\<rparr>"

definition budget_collector :: Collector where
  "budget_collector = policy_collector\<lparr>MaxDepth := 1, MaxRequests := 1, requestCount := 1\<rparr>"

text \<open>
  The request \<^verbatim>\<open>http.NewRequest\<close> builds for a GET of a URL without a body, and the
  same request with an Authorization header.
\<close>

definition get_request :: "string \<Rightarrow> http_Request" where
  "get_request s =
     \<lparr>req_Method = ''GET'', req_URL = plain_URL s, req_Header = [],
      req_Host = URL_Host (plain_URL s), req_Body = None, req_GetBody = None\<rparr>"

definition auth_request :: "string \<Rightarrow> http_Request" where
  "auth_request s = (get_request s)\<lparr>req_Header := [(''Authorization'', [''Basic c2VjcmV0'']), (''Accept'', [''*/*''])]\<rparr>"

section \<open>Notions the theorems use\<close>






section \<open>Properties of the policy filter\<close>

lemma isMatchingFilter_iff: "isMatchingFilter fs d \<longleftrightarrow> (\<exists>r \<in> set fs. r d)"
  by (induction fs) auto

lemma domain_in_iff: "domain_in ds domain \<longleftrightarrow> domain \<in> set ds"
  by (induction ds) auto

text \<open>
  C5. \<^verbatim>\<open>checkFilters\<close> is the policy filter of the spec: a matching disallowed-URL
  filter gives ForbiddenURL; else configured URL filters of which none matches give
  NoURLFiltersMatch; else a domain in the disallowed list gives ForbiddenDomain; else,
  with a non-empty allowed list, a domain that is not in it (by equality of strings, so
  case-sensitive and exact) gives ForbiddenDomain; else the URL passes.
\<close>

theorem checkFilters_order: "checkFilters c URL domain = spec_checkFilters c URL domain"
  by (auto simp add: checkFilters_def spec_checkFilters_def isDomainAllowed_def
        isMatchingFilter_iff domain_in_iff)

theorem checkFilters_order_witness:
  "spec_checkFilters policy_collector ''http://c.com/x'' ''c.com'' = Some ErrForbiddenURL \<and>
   spec_checkFilters policy_collector ''http://a.com/private'' ''c.com'' = Some ErrNoURLFiltersMatch \<and>
   spec_checkFilters policy_collector ''http://c.com/'' ''c.com'' = Some ErrForbiddenDomain \<and>
   spec_checkFilters policy_collector ''http://A.com/'' ''A.com'' = Some ErrForbiddenDomain \<and>
   spec_checkFilters policy_collector ''http://a.com/'' ''a.com'' = None"
  unfolding checkFilters_order [symmetric]
  by (simp add: checkFilters_def isDomainAllowed_def policy_collector_def NewCollector_def)

section \<open>Properties of admission control\<close>

lemma sum64a_Write_append: "sum64a_Write h (xs @ ys) = sum64a_Write (sum64a_Write h xs) ys"
  by (induction xs arbitrary: h) simp_all

lemma first_failure_step:
  "first_failure (chk # chks) c =
     (if fst (chk c) = None then first_failure chks (snd (chk c)) else chk c)"
  by (cases "chk c") (auto split: option.split)

lemma requestCheck_first_failure:
  "requestCheck env c parsedURL method getBody depth checkRevisit =
   spec_requestCheck env c parsedURL method getBody depth checkRevisit"
proof -
  obtain er c1 where rob: "spec_robots_check env method parsedURL c = (er, c1)"
    by (cases "spec_robots_check env method parsedURL c")
  have robots: "(if method \<noteq> ''HEAD'' \<and> \<not> IgnoreRobotsTxt c
                 then checkRobots env c parsedURL else (None, c)) = (er, c1)"
    using rob by (auto simp add: spec_robots_check_def split: if_splits)
  have code: "requestCheck env c parsedURL method getBody depth checkRevisit =
     (if MaxDepth c > 0 \<and> MaxDepth c < depth then (Some ErrMaxDepth, c)
      else if MaxRequests c > 0 \<and> requestCount c \<ge> MaxRequests c then (Some ErrMaxRequests, c)
      else case checkFilters c (URL_String parsedURL) (URL_Hostname parsedURL) of
             Some err \<Rightarrow> (Some err, c)
           | None \<Rightarrow> (case er of Some err \<Rightarrow> (Some err, c1)
                      | None \<Rightarrow> spec_revisit_check env method getBody parsedURL checkRevisit c1))"
    unfolding requestCheck_def Let_def robots
    by (cases getBody rule: body_bytes.cases)
       (simp_all add: spec_revisit_check_def spec_fingerprint_def requestHash_def fnv64a_def
          sum64a_Write_append store_IsVisited_def store_Visited_def Let_def split: option.split)
  have spec: "spec_requestCheck env c parsedURL method getBody depth checkRevisit =
     (if MaxDepth c > 0 \<and> MaxDepth c < depth then (Some ErrMaxDepth, c)
      else if MaxRequests c > 0 \<and> requestCount c \<ge> MaxRequests c then (Some ErrMaxRequests, c)
      else case checkFilters c (URL_String parsedURL) (URL_Hostname parsedURL) of
             Some err \<Rightarrow> (Some err, c)
           | None \<Rightarrow> (case er of Some err \<Rightarrow> (Some err, c1)
                      | None \<Rightarrow> spec_revisit_check env method getBody parsedURL checkRevisit c1))"
    unfolding spec_requestCheck_def
    by (simp add: first_failure_step spec_depth_check_def spec_budget_check_def
          spec_filter_check_def rob split: option.split prod.split)
  show ?thesis by (simp only: code spec)
qed

text \<open>
  C6. \<^verbatim>\<open>requestCheck\<close> runs the five checks of section 4.3 in the order depth, request
  budget, policy filter, robots, revisit, and returns the first failure. The robots check
  is skipped for HEAD and when robots checking is disabled; the revisit check is skipped
  when revisits are allowed or \<^verbatim>\<open>checkRevisit\<close> is false, and for a method other than
  GET with no reopenable body.
\<close>

theorem requestCheck_order:
  "requestCheck env c parsedURL method getBody depth checkRevisit =
   spec_requestCheck env c parsedURL method getBody depth checkRevisit"
  by (rule requestCheck_first_failure)

theorem requestCheck_order_witness:
  "fst (spec_requestCheck sample_env budget_collector (plain_URL ''http://c.com/x'') ''GET'' None 2 True)
     = Some ErrMaxDepth \<and>
   fst (spec_requestCheck sample_env budget_collector (plain_URL ''http://c.com/x'') ''GET'' None 1 True)
     = Some ErrMaxRequests \<and>
   fst (spec_requestCheck sample_env policy_collector (plain_URL ''http://c.com/x'') ''GET'' None 1 True)
     = Some ErrForbiddenURL \<and>
   fst (spec_requestCheck sample_env (policy_collector\<lparr>store := {fnv64a ''http://a.com/''}\<rparr>)
          (plain_URL ''http://a.com/'') ''GET'' None 1 True)
     = Some (AlreadyVisitedError (plain_URL ''http://a.com/'')) \<and>
   fst (spec_requestCheck sample_env (policy_collector\<lparr>store := {fnv64a ''http://a.com/''}\<rparr>)
          (plain_URL ''http://a.com/'') ''HEAD'' None 1 True)
     = None"
  unfolding requestCheck_order [symmetric]
  by code_simp

section \<open>Properties of the redirect interceptor\<close>







lemma redirect_revisit_handler:
  "redirect_revisit env req via0 c = (err, c1) \<Longrightarrow> redirectHandler c1 = redirectHandler c"
  by (auto simp add: redirect_revisit_def store_IsVisited_def store_Visited_def Let_def
        split: if_splits option.splits sum.splits)

text \<open>
  C8. After the filter and revisit checks of the redirect check: an installed redirect
  handler decides alone; otherwise a chain of 10 or more requests ends with
  \<^verbatim>\<open>http.ErrUseLastResponse\<close>, and a shorter chain is followed, with the
  Authorization header deleted when the target's host differs from the host of the last
  request of the chain (and every other header kept).
\<close>

theorem checkRedirectFunc_follow:
  assumes filters: "checkFilters c (URL_String (req_URL req)) (URL_Hostname (req_URL req)) = None"
      and revisit: "redirect_revisit env req via0 c = (None, c1)"
  shows "checkRedirectFunc env req (via0 # rest) c =
           (case redirectHandler c of
              Some handler \<Rightarrow> (fst (handler req (via0 # rest)), snd (handler req (via0 # rest)), c1)
            | None \<Rightarrow>
                if 10 \<le> length (via0 # rest) then (Some ErrUseLastResponse, req, c1)
                else if URL_Host (req_URL req) \<noteq> URL_Host (req_URL (last (via0 # rest)))
                then (None, req\<lparr>req_Header := Header_Del env (req_Header req) ''Authorization''\<rparr>, c1)
                else (None, req, c1)) \<and>
         Header_Get env (Header_Del env (req_Header req) ''Authorization'') ''Authorization'' = [] \<and>
         (\<forall>k. k \<noteq> CanonicalMIMEHeaderKey env ''Authorization'' \<longrightarrow>
              map_of (Header_Del env (req_Header req) ''Authorization'') k = map_of (req_Header req) k)"
proof -
  have handler: "redirectHandler c1 = redirectHandler c"
    using revisit by (rule redirect_revisit_handler)
  have "checkRedirectFunc env req (via0 # rest) c = redirect_follow env req (via0 # rest) c1"
    by (simp add: checkRedirectFunc_def filters revisit)
  then show ?thesis
    by (auto simp add: redirect_follow_def handler Let_def Header_Get_def Header_Del_def
          delete_conv' split: option.split prod.split)
qed


theorem checkRedirectFunc_follow_witness:
  "fst (checkRedirectFunc sample_env (auth_request ''http://b.com/'') [get_request ''http://a.com/''] NewCollector) = None \<and>
   req_Header (fst (snd (checkRedirectFunc sample_env (auth_request ''http://b.com/'')
       [get_request ''http://a.com/''] NewCollector))) = [(''Accept'', [''*/*''])] \<and>
   fst (checkRedirectFunc sample_env (auth_request ''http://b.com/'')
       (get_request ''http://a.com/'' # replicate 9 (get_request ''http://c.com/'')) NewCollector)
     = Some ErrUseLastResponse"
proof -
  have f: "checkFilters NewCollector (URL_String (req_URL (auth_request ''http://b.com/'')))
              (URL_Hostname (req_URL (auth_request ''http://b.com/''))) = None"
    by code_simp
  have "fst (redirect_revisit sample_env (auth_request ''http://b.com/'') (get_request ''http://a.com/'') NewCollector) = None"
    by code_simp
  then have r: "redirect_revisit sample_env (auth_request ''http://b.com/'') (get_request ''http://a.com/'') NewCollector =
     (None, snd (redirect_revisit sample_env (auth_request ''http://b.com/'') (get_request ''http://a.com/'') NewCollector))"
    by (metis prod.collapse)
  show ?thesis
    using checkRedirectFunc_follow [OF f r, of "[]"]
      checkRedirectFunc_follow [OF f r, of "replicate 9 (get_request ''http://c.com/'')"]
    by (simp add: NewCollector_def get_request_def auth_request_def sample_env_def plain_URL_def
          Header_Del_def Let_def)
qed

section \<open>Properties of the orchestrator\<close>




























































end
